theory Spec2Isabelle
  imports Complex_Main "HOL-Library.Multiset" "HOL-Library.Sublist"
begin

section \<open>WebScout, the licensed content harvester of \<^verbatim>\<open>src/index.js\<close>\<close>

subsection \<open>JavaScript values and strings\<close>

text \<open>
  A JavaScript string is modelled as a \<^typ>\<open>string\<close>: a list of code units below 256.
  The two marks of the source that lie above that range keep their length of one code
  unit and are written with the bytes Windows-1252 gives them: the ellipsis U+2026 as
  0x85 and the em dash U+2014 as 0x97. A property that upstream JSON may leave out is a
  \<^typ>\<open>string option\<close>, \<open>None\<close> standing for \<^verbatim>\<open>undefined\<close> and \<^verbatim>\<open>null\<close>.
\<close>

definition ellipsis :: string where
  "ellipsis = [char_of (0x85 :: nat)]"

definition emdash :: string where
  "emdash = [char_of (0x97 :: nat)]"

definition copyright_sign :: string where
  "copyright_sign = [char_of (0xA9 :: nat)]"

definition middle_dot :: string where
  "middle_dot = [char_of (0xB7 :: nat)]"

text \<open>\<^verbatim>\<open>!v\<close> on a string or a missing value: only a non-empty string is truthy.\<close>

definition falsy :: "string option \<Rightarrow> bool" where
  "falsy v = (case v of None \<Rightarrow> True | Some s \<Rightarrow> s = [])"

text \<open>\<^verbatim>\<open>a || b\<close> with a string default.\<close>

definition or_else :: "string option \<Rightarrow> string \<Rightarrow> string" where
  "or_else v d = (case v of None \<Rightarrow> d | Some s \<Rightarrow> if s = [] then d else s)"

text \<open>
  String conversion in a template literal or a \<^verbatim>\<open>+\<close>. A missing value prints as
  \<^verbatim>\<open>undefined\<close>; a JSON \<^verbatim>\<open>null\<close>, which JavaScript prints as \<^verbatim>\<open>null\<close>, is not told
  apart from it.
\<close>

definition to_str :: "string option \<Rightarrow> string" where
  "to_str v = (case v of None \<Rightarrow> ''undefined'' | Some s \<Rightarrow> s)"

text \<open>\<^verbatim>\<open>String.prototype.toLowerCase\<close> on the code units below 256.\<close>

definition toLowerCase_char :: "char \<Rightarrow> char" where
  "toLowerCase_char c =
     (let n = (of_char c :: nat)
      in if (65 \<le> n \<and> n \<le> 90) \<or> (192 \<le> n \<and> n \<le> 222 \<and> n \<noteq> 215)
         then char_of (n + 32) else c)"

definition toLowerCase :: "string \<Rightarrow> string" where
  "toLowerCase s = map toLowerCase_char s"

text \<open>\<^verbatim>\<open>String.prototype.includes\<close>: the pattern occurs as a contiguous run.\<close>

fun str_includes :: "string \<Rightarrow> string \<Rightarrow> bool" where
  "str_includes [] t = (t = [])"
| "str_includes (c # s) t = (prefix t (c # s) \<or> str_includes s t)"

text \<open>\<^verbatim>\<open>Array.prototype.includes\<close> on an array of strings.\<close>

definition arr_includes :: "string list \<Rightarrow> string option \<Rightarrow> bool" where
  "arr_includes xs v = (case v of None \<Rightarrow> False | Some s \<Rightarrow> s \<in> set xs)"

text \<open>
  \<^verbatim>\<open>slice(start, end)\<close> of arrays and strings: a negative index counts from the end,
  and both are clamped to the length.
\<close>

definition slice :: "'a list \<Rightarrow> int \<Rightarrow> int \<Rightarrow> 'a list" where
  "slice xs start end =
     (let len = int (length xs);
          k = (if start < 0 then max (len + start) 0 else min start len);
          final = (if end < 0 then max (len + end) 0 else min end len)
      in take (nat (final - k)) (drop (nat k) xs))"

text \<open>\<^verbatim>\<open>String.prototype.trim\<close>: the white space and line terminators below 256.\<close>

definition is_space :: "char \<Rightarrow> bool" where
  "is_space c = ((of_char c :: nat) \<in> {9, 10, 11, 12, 13, 32, 160})"

definition trim :: "string \<Rightarrow> string" where
  "trim s = rev (dropWhile is_space (rev (dropWhile is_space s)))"

subsection \<open>The license enumeration\<close>

definition License_PD :: string where "License_PD = ''PD''"
definition License_CC0 :: string where "License_CC0 = ''CC0''"
definition License_CCBY :: string where "License_CCBY = ''CCBY''"
definition License_CCBYSA :: string where "License_CCBYSA = ''CCBYSA''"
definition License_NASA_PD :: string where "License_NASA_PD = ''NASA_PD''"
definition License_UNKNOWN :: string where "License_UNKNOWN = ''UNKNOWN''"
definition License_NOT_ALLOWED :: string where "License_NOT_ALLOWED = ''NOT_ALLOWED''"

definition RENDER_ALLOWED_LICENSES :: "string list" where
  "RENDER_ALLOWED_LICENSES =
     [License_PD, License_CC0, License_CCBY, License_CCBYSA, License_NASA_PD]"

definition ATTRIBUTION_REQUIRED :: "string list" where
  "ATTRIBUTION_REQUIRED = [License_CCBY, License_CCBYSA, License_NASA_PD]"

subsection \<open>Licensed candidates\<close>

text \<open>
  The \<^verbatim>\<open>LicensedCandidate\<close> object. The fields are those of the source, each with the
  prefix \<open>c_\<close> (\<^verbatim>\<open>id\<close>, \<^verbatim>\<open>u\<close> and \<^verbatim>\<open>k\<close> would clash with HOL's names); a string
  field may be missing.
\<close>

record candidate =
  c_id :: "string option"
  c_u :: "string option"
  c_k :: "string option"
  c_ttl :: "string option"
  c_desc :: "string option"
  c_src :: "string option"
  c_lic :: "string option"
  c_att :: "string option"
  c_link :: "string option"
  c_safe :: bool

text \<open>The object \<^verbatim>\<open>harvestCandidates\<close> returns.\<close>

record harvest =
  img :: "candidate list"
  lnk :: "candidate list"

subsection \<open>Upstream data\<close>

text \<open>
  What one request gives a fetcher: \<open>Failed\<close> when \<^verbatim>\<open>fetch\<close> rejects or the body cannot
  be read as the JSON the fetcher expects (an exception), \<open>NotOk\<close> when \<^verbatim>\<open>response.ok\<close>
  is false, and else the parsed body.
\<close>

datatype 'a response = Failed | NotOk | Ok 'a

text \<open>
  The bodies, with the properties the fetchers read. A chain of optional accesses such
  as \<^verbatim>\<open>item.title?.[0]\<close> is one optional field; a number that is only printed is the
  string JavaScript prints for it.
\<close>

record apod_item =
  apod_media_type :: "string option"
  apod_date :: "string option"
  apod_url :: "string option"
  apod_title :: "string option"
  apod_explanation :: "string option"
  apod_copyright :: "string option"

datatype apod_data = One apod_item | Many "apod_item list"

record epic_item =
  epic_date :: "string option"
  epic_image :: "string option"
  epic_identifier :: "string option"
  epic_caption :: "string option"

record met_object =
  met_objectID :: "string option"
  met_isPublicDomain :: bool
  met_primaryImageSmall :: "string option"
  met_title :: "string option"
  met_artistDisplayName :: "string option"
  met_objectDate :: "string option"
  met_objectURL :: "string option"

record met_search =
  met_objectIDs :: "met_object response list option"

record artic_artwork =
  artic_id :: "string option"
  artic_title :: "string option"
  artic_image_id :: "string option"
  artic_artist_title :: "string option"
  artic_date_display :: "string option"
  artic_is_public_domain :: bool

record artic_data =
  artic_iiif_url :: "string option"
  artic_artworks :: "artic_artwork list option"

record si_content =
  si_media_content :: "string option"
  si_title_content :: "string option"
  si_notes_content :: "string option"
  si_guid :: "string option"

record si_row =
  si_id :: "string option"
  si_row_content :: "si_content option"

record eu_item =
  eu_edmPreview :: "string option"
  eu_rights :: "string option"
  eu_id :: "string option"
  eu_title :: "string option"
  eu_dcDescription :: "string option"
  eu_dcCreator :: "string option"
  eu_guid :: "string option"

record us_photo =
  us_urls_regular :: "string option"
  us_urls_small :: "string option"
  us_id :: "string option"
  us_description :: "string option"
  us_alt_description :: "string option"
  us_user_name :: "string option"
  us_links_html :: "string option"

record hn_story =
  hn_id :: "string option"
  hn_type :: "string option"
  hn_url :: "string option"
  hn_title :: "string option"
  hn_score :: "string option"
  hn_descendants :: "string option"

record wc_imageinfo =
  wc_thumburl :: "string option"
  wc_url :: "string option"
  wc_descriptionurl :: "string option"
  wc_LicenseShortName :: "string option"
  wc_Artist :: "string option"
  wc_ImageDescription :: "string option"

record wc_page =
  wc_pageid :: "string option"
  wc_title :: "string option"
  wc_imageinfo :: "wc_imageinfo option"

text \<open>
  Everything outside the process that one harvest reads: the clock, the three API keys
  of the environment, and the answer to each fetcher's requests. The Met Museum and the
  Hacker News fetchers make one request per identifier of a first answer; the answers to
  these stand in the place of the identifiers.
\<close>

record upstream =
  up_now :: int
  SMITHSONIAN_API_KEY :: "string option"
  EUROPEANA_API_KEY :: "string option"
  UNSPLASH_ACCESS_KEY :: "string option"
  apod_response :: "apod_data response"
  epic_response :: "epic_item list response"
  met_response :: "met_search response"
  artic_response :: "artic_data response"
  si_response :: "si_row list option response"
  eu_response :: "eu_item list option response"
  us_response :: "us_photo list response"
  hn_response :: "hn_story option response list response"
  wc_response :: "wc_page list response"

subsection \<open>Helper functions\<close>

definition truncate :: "string option \<Rightarrow> int \<Rightarrow> string" where
  "truncate str maxLen =
     (if falsy str then []
      else let s = trim (the str)
           in if int (length s) \<le> maxLen then s
              else slice s 0 (maxLen - 1) @ ellipsis)"

definition unsafeTerms :: "string list" where
  "unsafeTerms =
     [''nsfw'', ''nude'', ''naked'', ''porn'', ''xxx'', ''sexual'', ''erotic'',
      ''gore'', ''graphic violence'', ''torture'', ''beheading'',
      ''nazi'', ''white supremac'', ''kkk'', ''hate group'']"

definition basicSafetyCheck :: "string option \<Rightarrow> bool" where
  "basicSafetyCheck text =
     (if falsy text then True
      else let lower = toLowerCase (the text)
           in \<not> list_ex (\<lambda>term. str_includes lower term) unsafeTerms)"

definition parseWikimediaLicense :: "string option \<Rightarrow> string" where
  "parseWikimediaLicense licenseString =
     (if falsy licenseString then License_UNKNOWN
      else let lower = toLowerCase (the licenseString)
           in if str_includes lower ''cc0'' \<or> str_includes lower ''public domain''
                 \<or> lower = ''pd''
              then License_CC0
              else if str_includes lower ''cc-by-sa'' \<or> str_includes lower ''cc by-sa''
              then License_CCBYSA
              else if str_includes lower ''cc-by'' \<or> str_includes lower ''cc by''
              then License_CCBY
              else License_UNKNOWN)"

definition parseEuropeanaRights :: "string option \<Rightarrow> string" where
  "parseEuropeanaRights rightsUrl =
     (if falsy rightsUrl then License_UNKNOWN
      else let lower = toLowerCase (the rightsUrl)
           in if str_includes lower ''publicdomain'' \<or> str_includes lower ''cc0''
                 \<or> str_includes lower ''/mark/''
              then License_CC0
              else if str_includes lower ''by-sa'' then License_CCBYSA
              else if str_includes lower ''/by/'' then License_CCBY
              else if str_includes lower ''in-copyright''
                      \<or> str_includes lower ''orphan-work''
              then License_NOT_ALLOWED
              else License_UNKNOWN)"

definition rightsToString :: "string \<Rightarrow> string" where
  "rightsToString license =
     (if license = License_CCBY then ''CC BY 4.0''
      else if license = License_CCBYSA then ''CC BY-SA 4.0''
      else if license = License_CC0 then ''CC0 Public Domain''
      else if license = License_PD then ''Public Domain''
      else if license = License_NASA_PD then ''NASA/Public Domain''
      else [])"

subsection \<open>The source fetchers\<close>

text \<open>
  One turn of a fetcher's loop skips the item (\<^verbatim>\<open>continue\<close>), pushes a candidate, or
  throws; an exception leaves the loop for the \<^verbatim>\<open>catch\<close> block, after which the fetcher
  returns the candidates pushed so far. \<open>for_each_upto\<close> is the loop that starts each
  turn with \<^verbatim>\<open>if (candidates.length >= limit) break\<close>.
\<close>

datatype step = Skip | Push candidate | Throw

fun for_each :: "('i \<Rightarrow> step) \<Rightarrow> 'i list \<Rightarrow> candidate list \<Rightarrow> candidate list" where
  "for_each body [] candidates = candidates"
| "for_each body (item # items) candidates =
     (case body item of
        Skip \<Rightarrow> for_each body items candidates
      | Push c \<Rightarrow> for_each body items (candidates @ [c])
      | Throw \<Rightarrow> candidates)"

fun for_each_upto :: "int \<Rightarrow> ('i \<Rightarrow> step) \<Rightarrow> 'i list \<Rightarrow> candidate list \<Rightarrow> candidate list" where
  "for_each_upto limit body [] candidates = candidates"
| "for_each_upto limit body (item # items) candidates =
     (if int (length candidates) \<ge> limit then candidates
      else case body item of
             Skip \<Rightarrow> for_each_upto limit body items candidates
           | Push c \<Rightarrow> for_each_upto limit body items (candidates @ [c])
           | Throw \<Rightarrow> candidates)"

text \<open>\<^verbatim>\<open>a || b\<close> where \<open>b\<close> may be missing too.\<close>

definition or_opt :: "string option \<Rightarrow> string option \<Rightarrow> string option" where
  "or_opt a b = (if falsy a then b else a)"

text \<open>\<^verbatim>\<open>replace(/-/g, r)\<close>, \<^verbatim>\<open>split(' ')[0]\<close> and \<^verbatim>\<open>slice(2)\<close> of a string.\<close>

definition replace_dashes :: "string \<Rightarrow> string \<Rightarrow> string" where
  "replace_dashes s r = concat (map (\<lambda>c. if c = CHR ''-'' then r else [c]) s)"

definition first_word :: "string \<Rightarrow> string" where
  "first_word s = takeWhile (\<lambda>c. c \<noteq> CHR '' '') s"

definition slice_from :: "string \<Rightarrow> int \<Rightarrow> string" where
  "slice_from s start = slice s start (int (length s))"

text \<open>
  \<^verbatim>\<open>replace(/<[^>]*>/g, '')\<close>: every run from a \<^verbatim>\<open><\<close> to the next \<^verbatim>\<open>>\<close> is removed; the
  flag says that such a run is being skipped.
\<close>

fun strip_tags_from :: "bool \<Rightarrow> string \<Rightarrow> string" where
  "strip_tags_from skipping [] = []"
| "strip_tags_from True (c # s) =
     (if c = CHR ''>'' then strip_tags_from False s else strip_tags_from True s)"
| "strip_tags_from False (c # s) =
     (if c = CHR ''<'' \<and> CHR ''>'' \<in> set s then strip_tags_from True s
      else c # strip_tags_from False s)"

definition strip_tags :: "string \<Rightarrow> string" where
  "strip_tags s = strip_tags_from False s"

text \<open>\<^verbatim>\<open>replace('File:', '')\<close>: the first occurrence of the pattern is removed.\<close>

fun remove_first :: "string \<Rightarrow> string \<Rightarrow> string" where
  "remove_first pat [] = []"
| "remove_first pat (c # s) =
     (if prefix pat (c # s) then drop (length pat) (c # s) else c # remove_first pat s)"

text \<open>\<^verbatim>\<open>replace(/\.[^.]+$/, '')\<close>: a last dot with something after it is cut off.\<close>

definition strip_extension :: "string \<Rightarrow> string" where
  "strip_extension s =
     (let ext = takeWhile (\<lambda>c. c \<noteq> CHR ''.'') (rev s)
      in if CHR ''.'' \<in> set s \<and> ext \<noteq> [] then take (length s - length ext - 1) s else s)"

text \<open>\<^verbatim>\<open>encodeURIComponent\<close> on code units below 256, through their UTF-8 bytes.\<close>

definition hex_digit :: "nat \<Rightarrow> char" where
  "hex_digit n = ''0123456789ABCDEF'' ! (n mod 16)"

definition percent :: "nat \<Rightarrow> string" where
  "percent b = [CHR ''%'', hex_digit (b div 16), hex_digit b]"

definition unreserved :: "char \<Rightarrow> bool" where
  "unreserved c =
     (let n = (of_char c :: nat)
      in (65 \<le> n \<and> n \<le> 90) \<or> (97 \<le> n \<and> n \<le> 122) \<or> (48 \<le> n \<and> n \<le> 57)
         \<or> c \<in> set ''-_.!~*'()'')"

definition encodeURIComponent :: "string \<Rightarrow> string" where
  "encodeURIComponent s =
     concat (map (\<lambda>c. let n = (of_char c :: nat)
                       in if unreserved c then [c]
                          else if n < 128 then percent n
                          else percent (192 + n div 64) @ percent (128 + n mod 64)) s)"

text \<open>
  \<^verbatim>\<open>fetchNASAAPOD\<close>. The start date is computed before the request; \<^verbatim>\<open>toISOString\<close>
  throws when the time lies more than \<open>8.64 \<times> 10\<^sup>1\<^sup>5\<close> ms from the epoch.
\<close>

definition apod_candidate :: "apod_item \<Rightarrow> step" where
  "apod_candidate item =
     (if apod_media_type item = Some ''video'' then Skip
      else case apod_date item of
        None \<Rightarrow> Throw
      | Some date \<Rightarrow> Push
         \<lparr>c_id = Some (''nasa:apod:'' @ date),
          c_u = apod_url item,
          c_k = Some ''space'',
          c_ttl = Some (truncate (apod_title item) 50),
          c_desc = Some (truncate (apod_explanation item) 100),
          c_src = Some ''NASA APOD'',
          c_lic = Some License_NASA_PD,
          c_att = Some (if \<not> falsy (apod_copyright item)
                        then copyright_sign @ '' '' @ the (apod_copyright item) @ '' ''
                             @ emdash @ '' NASA APOD''
                        else ''NASA/Public Domain''),
          c_link = Some (''https://apod.nasa.gov/apod/ap''
                         @ slice_from (replace_dashes date []) 2 @ ''.html''),
          c_safe = basicSafetyCheck
                     (Some (to_str (apod_title item) @ '' '' @ to_str (apod_explanation item)))\<rparr>)"

definition fetchNASAAPOD :: "int \<Rightarrow> int \<Rightarrow> apod_data response \<Rightarrow> candidate list" where
  "fetchNASAAPOD now limit response =
     (if \<bar>now - limit * 24 * 60 * 60 * 1000\<bar> > 8640000000000000 then []
      else case response of
        Failed \<Rightarrow> []
      | NotOk \<Rightarrow> []
      | Ok data \<Rightarrow>
          let items = (case data of Many array \<Rightarrow> array | One item \<Rightarrow> [item])
          in for_each apod_candidate (slice items 0 limit) [])"

text \<open>\<^verbatim>\<open>fetchNASAEPIC\<close>.\<close>

definition epic_candidate_of :: "epic_item \<Rightarrow> step" where
  "epic_candidate_of item =
     (case epic_date item of
        None \<Rightarrow> Throw
      | Some d \<Rightarrow>
          let date = replace_dashes (first_word d) ''/'';
              imageUrl = ''https://epic.gsfc.nasa.gov/archive/natural/'' @ date @ ''/png/''
                         @ to_str (epic_image item) @ ''.png''
          in Push
           \<lparr>c_id = Some (''nasa:epic:'' @ to_str (epic_identifier item)),
            c_u = Some imageUrl,
            c_k = Some ''earth'',
            c_ttl = Some (truncate (Some (or_else (epic_caption item) ''Earth from DSCOVR'')) 50),
            c_desc = Some ''Earth as seen from deep space'',
            c_src = Some ''NASA EPIC'',
            c_lic = Some License_NASA_PD,
            c_att = Some ''NASA/DSCOVR EPIC'',
            c_link = Some ''https://epic.gsfc.nasa.gov/'',
            c_safe = True\<rparr>)"

definition fetchNASAEPIC :: "int \<Rightarrow> epic_item list response \<Rightarrow> candidate list" where
  "fetchNASAEPIC limit response =
     (case response of
        Failed \<Rightarrow> []
      | NotOk \<Rightarrow> []
      | Ok data \<Rightarrow> for_each epic_candidate_of (slice data 0 limit) [])"

text \<open>
  \<^verbatim>\<open>fetchMetMuseum\<close>. The request for one object has a \<^verbatim>\<open>try\<close> of its own, whose
  \<^verbatim>\<open>catch\<close> goes on with the next object.
\<close>

definition met_candidate :: "met_object response \<Rightarrow> step" where
  "met_candidate objResponse =
     (case objResponse of
        Failed \<Rightarrow> Skip
      | NotOk \<Rightarrow> Skip
      | Ok obj \<Rightarrow>
          if \<not> met_isPublicDomain obj \<or> falsy (met_primaryImageSmall obj) then Skip
          else Push
           \<lparr>c_id = Some (''met:'' @ to_str (met_objectID obj)),
            c_u = met_primaryImageSmall obj,
            c_k = Some ''art'',
            c_ttl = Some (truncate (met_title obj) 50),
            c_desc = Some (truncate (Some (or_else (met_artistDisplayName obj) ''Unknown''
                                           @ '', '' @ or_else (met_objectDate obj) [])) 80),
            c_src = Some ''The Met Museum'',
            c_lic = Some License_CC0,
            c_att = Some [],
            c_link = met_objectURL obj,
            c_safe = basicSafetyCheck (met_title obj)\<rparr>)"

definition fetchMetMuseum :: "int \<Rightarrow> met_search response \<Rightarrow> candidate list" where
  "fetchMetMuseum limit searchResponse =
     (case searchResponse of
        Failed \<Rightarrow> []
      | NotOk \<Rightarrow> []
      | Ok searchData \<Rightarrow>
          let objectIds = (case met_objectIDs searchData of
                             None \<Rightarrow> []
                           | Some ids \<Rightarrow> slice ids 0 (limit * 3))
          in for_each_upto limit met_candidate objectIds [])"

text \<open>\<^verbatim>\<open>fetchArtInstituteChicago\<close>.\<close>

definition artic_candidate :: "string \<Rightarrow> artic_artwork \<Rightarrow> step" where
  "artic_candidate iiifBase artwork =
     (if falsy (artic_image_id artwork) \<or> \<not> artic_is_public_domain artwork then Skip
      else let imageUrl = iiifBase @ ''/'' @ the (artic_image_id artwork)
                          @ ''/full/843,/0/default.jpg''
           in Push
            \<lparr>c_id = Some (''artic:'' @ to_str (artic_id artwork)),
             c_u = Some imageUrl,
             c_k = Some ''art'',
             c_ttl = Some (truncate (artic_title artwork) 50),
             c_desc = Some (truncate (Some (or_else (artic_artist_title artwork) ''Unknown''
                                            @ '', '' @ or_else (artic_date_display artwork) [])) 80),
             c_src = Some ''Art Institute Chicago'',
             c_lic = Some License_CC0,
             c_att = Some [],
             c_link = Some (''https://www.artic.edu/artworks/'' @ to_str (artic_id artwork)),
             c_safe = basicSafetyCheck (artic_title artwork)\<rparr>)"

definition fetchArtInstituteChicago :: "int \<Rightarrow> artic_data response \<Rightarrow> candidate list" where
  "fetchArtInstituteChicago limit response =
     (case response of
        Failed \<Rightarrow> []
      | NotOk \<Rightarrow> []
      | Ok data \<Rightarrow>
          let iiifBase = or_else (artic_iiif_url data) ''https://www.artic.edu/iiif/2''
          in for_each (artic_candidate iiifBase)
               (case artic_artworks data of None \<Rightarrow> [] | Some artworks \<Rightarrow> artworks) [])"

text \<open>\<^verbatim>\<open>fetchSmithsonian\<close>: without an API key no request is made.\<close>

definition si_candidate :: "si_row \<Rightarrow> step" where
  "si_candidate row =
     (case si_row_content row of
        None \<Rightarrow> Skip
      | Some content \<Rightarrow>
          if falsy (si_media_content content) then Skip
          else Push
           \<lparr>c_id = Some (''smithsonian:'' @ to_str (si_id row)),
            c_u = si_media_content content,
            c_k = Some ''culture'',
            c_ttl = Some (truncate (Some (or_else (si_title_content content) ''Smithsonian Item'')) 50),
            c_desc = Some (truncate (Some (or_else (si_notes_content content) [])) 80),
            c_src = Some ''Smithsonian'',
            c_lic = Some License_CC0,
            c_att = Some [],
            c_link = Some (or_else (si_guid content) ''https://www.si.edu/openaccess''),
            c_safe = basicSafetyCheck (Some (or_else (si_title_content content) []))\<rparr>)"

definition fetchSmithsonian ::
  "string option \<Rightarrow> int \<Rightarrow> si_row list option response \<Rightarrow> candidate list" where
  "fetchSmithsonian apiKey limit response =
     (if falsy apiKey then []
      else case response of
        Failed \<Rightarrow> []
      | NotOk \<Rightarrow> []
      | Ok rows \<Rightarrow> for_each si_candidate (case rows of None \<Rightarrow> [] | Some rs \<Rightarrow> rs) [])"

text \<open>\<^verbatim>\<open>fetchEuropeana\<close>.\<close>

definition eu_candidate :: "eu_item \<Rightarrow> step" where
  "eu_candidate item =
     (let imageUrl = eu_edmPreview item
      in if falsy imageUrl then Skip
         else let license = parseEuropeanaRights (eu_rights item)
              in if license = License_UNKNOWN \<or> license = License_NOT_ALLOWED then Skip
                 else Push
                  \<lparr>c_id = Some (''europeana:'' @ to_str (eu_id item)),
                   c_u = imageUrl,
                   c_k = Some ''culture'',
                   c_ttl = Some (truncate (Some (or_else (eu_title item) ''Europeana Item'')) 50),
                   c_desc = Some (truncate (Some (or_else (eu_dcDescription item) [])) 80),
                   c_src = Some ''Europeana'',
                   c_lic = Some license,
                   c_att = Some (if license = License_CCBY \<or> license = License_CCBYSA
                                 then or_else (eu_dcCreator item) ''Unknown'' @ '' '' @ emdash
                                      @ '' '' @ rightsToString license
                                 else []),
                   c_link = Some (or_else (eu_guid item)
                                    (''https://www.europeana.eu/item'' @ to_str (eu_id item))),
                   c_safe = basicSafetyCheck
                              (Some (or_else (eu_title item) [] @ '' ''
                                     @ or_else (eu_dcDescription item) []))\<rparr>)"

definition fetchEuropeana ::
  "string option \<Rightarrow> int \<Rightarrow> eu_item list option response \<Rightarrow> candidate list" where
  "fetchEuropeana apiKey limit response =
     (if falsy apiKey then []
      else case response of
        Failed \<Rightarrow> []
      | NotOk \<Rightarrow> []
      | Ok items \<Rightarrow>
          for_each_upto limit eu_candidate (case items of None \<Rightarrow> [] | Some xs \<Rightarrow> xs) [])"

text \<open>\<^verbatim>\<open>fetchUnsplash\<close>.\<close>

definition us_candidate :: "us_photo \<Rightarrow> step" where
  "us_candidate photo =
     (let imageUrl = or_opt (us_urls_regular photo) (us_urls_small photo)
      in if falsy imageUrl then Skip
         else Push
          \<lparr>c_id = Some (''unsplash:'' @ to_str (us_id photo)),
           c_u = imageUrl,
           c_k = Some ''photo'',
           c_ttl = Some (truncate (Some (or_else (or_opt (us_description photo)
                                                     (us_alt_description photo))
                                            ''Unsplash Photo'')) 50),
           c_desc = Some (truncate (Some (''Photo by '' @ or_else (us_user_name photo) ''Unknown'')) 60),
           c_src = Some ''Unsplash'',
           c_lic = Some License_CC0,
           c_att = Some (''Photo by '' @ or_else (us_user_name photo) ''Unknown'' @ '' on Unsplash''),
           c_link = Some (or_else (us_links_html photo)
                            (''https://unsplash.com/photos/'' @ to_str (us_id photo))),
           c_safe = basicSafetyCheck
                      (Some (or_else (us_description photo) [] @ '' ''
                             @ or_else (us_alt_description photo) []))\<rparr>)"

definition fetchUnsplash ::
  "string option \<Rightarrow> int \<Rightarrow> us_photo list response \<Rightarrow> candidate list" where
  "fetchUnsplash accessKey limit response =
     (if falsy accessKey then []
      else case response of
        Failed \<Rightarrow> []
      | NotOk \<Rightarrow> []
      | Ok photos \<Rightarrow> for_each us_candidate photos [])"

text \<open>
  \<^verbatim>\<open>fetchHackerNews\<close>. The request for one story has a \<^verbatim>\<open>try\<close> of its own; the body of
  a story may be \<^verbatim>\<open>null\<close>.
\<close>

definition hn_candidate_of :: "hn_story option response \<Rightarrow> step" where
  "hn_candidate_of storyRes =
     (case storyRes of
        Failed \<Rightarrow> Skip
      | NotOk \<Rightarrow> Skip
      | Ok None \<Rightarrow> Skip
      | Ok (Some story) \<Rightarrow>
          if hn_type story \<noteq> Some ''story'' \<or> falsy (hn_url story) then Skip
          else Push
           \<lparr>c_id = Some (''hn:'' @ to_str (hn_id story)),
            c_u = Some [],
            c_k = Some ''link'',
            c_ttl = Some (truncate (hn_title story) 60),
            c_desc = Some (truncate (Some (to_str (hn_score story) @ '' points '' @ middle_dot
                                           @ '' '' @ or_else (hn_descendants story) ''0''
                                           @ '' comments'')) 40),
            c_src = Some ''Hacker News'',
            c_lic = Some License_UNKNOWN,
            c_att = Some [],
            c_link = hn_url story,
            c_safe = basicSafetyCheck (hn_title story)\<rparr>)"

definition fetchHackerNews ::
  "int \<Rightarrow> hn_story option response list response \<Rightarrow> candidate list" where
  "fetchHackerNews limit topStoriesRes =
     (case topStoriesRes of
        Failed \<Rightarrow> []
      | NotOk \<Rightarrow> []
      | Ok storyIds \<Rightarrow> for_each hn_candidate_of (slice storyIds 0 limit) [])"

text \<open>\<^verbatim>\<open>fetchWikimediaCommons\<close>.\<close>

definition wc_candidate :: "wc_page \<Rightarrow> step" where
  "wc_candidate page =
     (case wc_imageinfo page of
        None \<Rightarrow> Skip
      | Some imageinfo \<Rightarrow>
          let license = parseWikimediaLicense (wc_LicenseShortName imageinfo)
          in if \<not> arr_includes RENDER_ALLOWED_LICENSES (Some license) then Skip
             else let artist = or_else (map_option strip_tags (wc_Artist imageinfo)) ''Unknown''
                  in case wc_title page of
                       None \<Rightarrow> Throw
                     | Some title \<Rightarrow> Push
                        \<lparr>c_id = Some (''wc:'' @ to_str (wc_pageid page)),
                         c_u = or_opt (wc_thumburl imageinfo) (wc_url imageinfo),
                         c_k = Some ''photo'',
                         c_ttl = Some (truncate
                                   (Some (strip_extension (remove_first ''File:'' title))) 50),
                         c_desc = Some (truncate
                                    (Some (or_else (map_option strip_tags
                                                      (wc_ImageDescription imageinfo)) [])) 80),
                         c_src = Some ''Wikimedia Commons'',
                         c_lic = Some license,
                         c_att = Some (if arr_includes ATTRIBUTION_REQUIRED (Some license)
                                       then truncate (Some artist) 40 @ '' '' @ emdash @ '' ''
                                            @ rightsToString license
                                       else []),
                         c_link = Some (or_else (wc_descriptionurl imageinfo)
                                          (''https://commons.wikimedia.org/wiki/''
                                           @ encodeURIComponent title)),
                         c_safe = basicSafetyCheck
                                    (Some (title @ '' ''
                                           @ or_else (wc_ImageDescription imageinfo) []))\<rparr>)"

definition fetchWikimediaCommons :: "int \<Rightarrow> wc_page list response \<Rightarrow> candidate list" where
  "fetchWikimediaCommons limit response =
     (case response of
        Failed \<Rightarrow> []
      | NotOk \<Rightarrow> []
      | Ok pages \<Rightarrow> for_each_upto limit wc_candidate pages [])"

subsection \<open>The shuffle\<close>

text \<open>
  \<^verbatim>\<open>Math.random\<close> is a stream of numbers: \<open>rnd n\<close> is what the \<open>n\<close>-th call returns, and
  the number of calls made so far is threaded through. The language promises
  \<open>0 \<le> rnd n < 1\<close>. The product \<^verbatim>\<open>Math.random() * (i + 1)\<close> is taken exactly, where the
  code rounds it to a double before \<^verbatim>\<open>Math.floor\<close>; in both the index \<open>j\<close> lies in
  \<open>0..i\<close>. \<open>shuffle_loop rnd n i xs\<close> is the \<^verbatim>\<open>for\<close> loop of \<^verbatim>\<open>shuffle\<close> from
  index \<open>i\<close> down to 1.
\<close>

definition swap :: "nat \<Rightarrow> nat \<Rightarrow> 'a list \<Rightarrow> 'a list" where
  "swap i j xs = xs[i := xs ! j, j := xs ! i]"

fun shuffle_loop :: "(nat \<Rightarrow> real) \<Rightarrow> nat \<Rightarrow> nat \<Rightarrow> 'a list \<Rightarrow> 'a list \<times> nat" where
  "shuffle_loop rnd n 0 xs = (xs, n)"
| "shuffle_loop rnd n (Suc i) xs =
     (let j = nat \<lfloor>rnd n * real (Suc i + 1)\<rfloor>
      in shuffle_loop rnd (Suc n) i (swap (Suc i) j xs))"

definition shuffle :: "(nat \<Rightarrow> real) \<Rightarrow> nat \<Rightarrow> 'a list \<Rightarrow> 'a list \<times> nat" where
  "shuffle rnd n array = shuffle_loop rnd n (length array - 1) array"

subsection \<open>The harvest orchestrator\<close>

text \<open>
  The nine source fetchers are asynchronous: a call gives a promise, and
  \<^verbatim>\<open>Promise.allSettled\<close> turns each promise into a settled result, fulfilled with the
  fetcher's array of candidates or rejected. The orchestrator is modelled over any
  behaviour of the fetchers: \<open>world f n\<close> is the settled result of calling fetcher \<open>f\<close>
  with the limit \<open>n\<close>.
\<close>

datatype fetcher =
    NASAAPOD | NASAEPIC | MetMuseum | ArtInstituteChicago | Smithsonian
  | Europeana | WikimediaCommons | Unsplash | HackerNews

datatype 'a settled = Fulfilled 'a | Rejected

type_synonym world = "fetcher \<Rightarrow> int \<Rightarrow> candidate list settled"

text \<open>
  The fetchers as they run against the world outside. Each is an \<^verbatim>\<open>async\<close> function
  whose requests stand in a \<^verbatim>\<open>try\<close> block, so its promise is always fulfilled.
\<close>

definition run_fetcher :: "upstream \<Rightarrow> fetcher \<Rightarrow> int \<Rightarrow> candidate list" where
  "run_fetcher up f limit =
     (case f of
        NASAAPOD \<Rightarrow> fetchNASAAPOD (up_now up) limit (apod_response up)
      | NASAEPIC \<Rightarrow> fetchNASAEPIC limit (epic_response up)
      | MetMuseum \<Rightarrow> fetchMetMuseum limit (met_response up)
      | ArtInstituteChicago \<Rightarrow> fetchArtInstituteChicago limit (artic_response up)
      | Smithsonian \<Rightarrow> fetchSmithsonian (SMITHSONIAN_API_KEY up) limit (si_response up)
      | Europeana \<Rightarrow> fetchEuropeana (EUROPEANA_API_KEY up) limit (eu_response up)
      | WikimediaCommons \<Rightarrow> fetchWikimediaCommons limit (wc_response up)
      | Unsplash \<Rightarrow> fetchUnsplash (UNSPLASH_ACCESS_KEY up) limit (us_response up)
      | HackerNews \<Rightarrow> fetchHackerNews limit (hn_response up))"

definition live_world :: "upstream \<Rightarrow> world" where
  "live_world up f limit = Fulfilled (run_fetcher up f limit)"

text \<open>The calls pushed on \<^verbatim>\<open>fetchers\<close>, in the order of the source.\<close>

definition on_surface :: "string list \<Rightarrow> string \<Rightarrow> bool" where
  "on_surface surfaces s = (s \<in> set surfaces \<or> ''all'' \<in> set surfaces)"

definition fetchers :: "string list \<Rightarrow> int \<Rightarrow> (fetcher \<times> int) list" where
  "fetchers surfaces limit =
     (if on_surface surfaces ''space''
      then [(NASAAPOD, limit), (NASAEPIC, \<lceil>real_of_int limit / 2\<rceil>)] else [])
   @ (if on_surface surfaces ''art''
      then [(MetMuseum, limit), (ArtInstituteChicago, limit)] else [])
   @ (if on_surface surfaces ''culture''
      then [(Smithsonian, limit), (Europeana, limit), (WikimediaCommons, limit)] else [])
   @ (if on_surface surfaces ''photo'' then [(Unsplash, limit)] else [])
   @ (if on_surface surfaces ''tech'' then [(HackerNews, limit)] else [])"

text \<open>
  The body of the inner loop: one candidate, and the two arrays \<^verbatim>\<open>allImages\<close> and
  \<^verbatim>\<open>allLinks\<close> it may be pushed on.
\<close>

definition malformed :: "candidate \<Rightarrow> bool" where
  "malformed c =
     (falsy (c_id c) \<or> falsy (c_u c) \<or> falsy (c_k c) \<or> falsy (c_ttl c)
      \<or> falsy (c_src c) \<or> falsy (c_lic c))"

definition visit_candidate ::
  "candidate \<Rightarrow> candidate list \<times> candidate list \<Rightarrow> candidate list \<times> candidate list" where
  "visit_candidate c acc =
     (case acc of (allImages, allLinks) \<Rightarrow>
        if \<not> c_safe c then (allImages, allLinks)
        else if malformed c then (allImages, allLinks)
        else if c_k c = Some ''link'' \<or> \<not> arr_includes RENDER_ALLOWED_LICENSES (c_lic c)
        then (allImages, allLinks @ [c])
        else (allImages @ [c], allLinks))"

fun visit_result ::
  "candidate list settled \<Rightarrow> candidate list \<times> candidate list
     \<Rightarrow> candidate list \<times> candidate list" where
  "visit_result (Fulfilled cs) acc = fold visit_candidate cs acc"
| "visit_result Rejected acc = acc"

definition collect :: "candidate list settled list \<Rightarrow> candidate list \<times> candidate list" where
  "collect results = fold visit_result results ([], [])"

text \<open>
  \<^verbatim>\<open>harvestCandidates\<close> has no \<^verbatim>\<open>throw\<close> and checks neither argument; a run either
  returns its two buckets (\<open>Inr\<close>) or fails with an error (\<open>Inl\<close>), and the source gives
  no way to the second. Both arguments are given (the default values of the parameters
  are left out), and the limit is an integer. The object literal that is returned calls
  \<^verbatim>\<open>shuffle\<close> on the images first, then on the links.
\<close>

datatype harvest_error = HardError

definition harvest_of ::
  "(nat \<Rightarrow> real) \<Rightarrow> int \<Rightarrow> candidate list \<times> candidate list \<Rightarrow> harvest" where
  "harvest_of rnd limit acc =
     (case acc of (allImages, allLinks) \<Rightarrow>
        (case shuffle rnd 0 allImages of (shuffledImages, n) \<Rightarrow>
           (case shuffle rnd n allLinks of (shuffledLinks, n') \<Rightarrow>
              \<lparr>img = slice shuffledImages 0 (limit * 2),
               lnk = slice shuffledLinks 0 limit\<rparr>)))"

text \<open>What \<^verbatim>\<open>Promise.allSettled(fetchers)\<close> resolves to.\<close>

definition allSettled :: "world \<Rightarrow> (fetcher \<times> int) list \<Rightarrow> candidate list settled list" where
  "allSettled world calls = map (\<lambda>(f, n). world f n) calls"

definition harvestCandidates ::
  "world \<Rightarrow> (nat \<Rightarrow> real) \<Rightarrow> string list \<Rightarrow> int \<Rightarrow> harvest_error + harvest" where
  "harvestCandidates world rnd surfaces limit =
     (let results = allSettled world (fetchers surfaces limit)
      in Inr (harvest_of rnd limit (collect results)))"

subsection \<open>Notions used to state the properties\<close>

text \<open>The promise of \<^verbatim>\<open>Math.random\<close>: every number drawn lies in \<open>[0, 1)\<close>.\<close>

definition unit_draws :: "(nat \<Rightarrow> real) \<Rightarrow> bool" where
  "unit_draws rnd = (\<forall>n. 0 \<le> rnd n \<and> rnd n < 1)"

text \<open>A candidate that passes the safety and required-field checks of the orchestrator.\<close>

definition accepted :: "candidate \<Rightarrow> bool" where
  "accepted c = (c_safe c \<and> \<not> malformed c)"

text \<open>The condition under which an accepted candidate goes to the link bucket.\<close>

definition link_only :: "candidate \<Rightarrow> bool" where
  "link_only c =
     (c_k c = Some ''link'' \<or> \<not> arr_includes RENDER_ALLOWED_LICENSES (c_lic c))"

text \<open>The candidates of the fulfilled results, in the order the loops visit them.\<close>

fun values_of :: "'a list settled list \<Rightarrow> 'a list" where
  "values_of [] = []"
| "values_of (Fulfilled cs # rs) = cs @ values_of rs"
| "values_of (Rejected # rs) = values_of rs"

text \<open>The selected calls other than those of fetcher \<open>f\<close>.\<close>

definition calls_without :: "fetcher \<Rightarrow> (fetcher \<times> int) list \<Rightarrow> (fetcher \<times> int) list" where
  "calls_without f calls = filter (\<lambda>(g, n). g \<noteq> f) calls"

text \<open>Fixed inputs for examples: fetchers that find nothing, and draws that are all 0.\<close>

definition quiet_world :: world where
  "quiet_world f n = Fulfilled []"

definition zero_draws :: "nat \<Rightarrow> real" where
  "zero_draws n = 0"

definition half_draws :: "nat \<Rightarrow> real" where
  "half_draws n = 1 / 2"

text \<open>
  A link candidate as \<^verbatim>\<open>fetchHackerNews\<close> builds it: kind \<^verbatim>\<open>link\<close>, empty \<^verbatim>\<open>u\<close>, license
  \<^verbatim>\<open>UNKNOWN\<close>, safe, with an identifier, a title and a source.
\<close>

definition hn_candidate :: "string \<Rightarrow> candidate" where
  "hn_candidate n =
     \<lparr>c_id = Some (''hn:'' @ n), c_u = Some [], c_k = Some ''link'',
      c_ttl = Some (''Story '' @ n), c_desc = Some ''10 points'',
      c_src = Some ''Hacker News'', c_lic = Some License_UNKNOWN, c_att = Some [],
      c_link = Some (''https://example.com/'' @ n), c_safe = True\<rparr>"

definition hn_world :: world where
  "hn_world f n =
     (if f = HackerNews
      then Fulfilled (map hn_candidate [''1'', ''2'', ''3'', ''4'', ''5''])
      else Fulfilled [])"

text \<open>An image candidate, and a world in which only the Hacker News fetcher fails.\<close>

definition epic_candidate :: candidate where
  "epic_candidate =
     \<lparr>c_id = Some ''nasa:epic:1'', c_u = Some ''https://epic.gsfc.nasa.gov/1.png'',
      c_k = Some ''earth'', c_ttl = Some ''Earth'', c_desc = Some ''Earth as seen from deep space'',
      c_src = Some ''NASA EPIC'', c_lic = Some License_NASA_PD,
      c_att = Some ''NASA/DSCOVR EPIC'', c_link = Some ''https://epic.gsfc.nasa.gov/'',
      c_safe = True\<rparr>"

definition epic_world :: world where
  "epic_world f n = (if f = NASAEPIC then Fulfilled [epic_candidate] else Fulfilled [])"

text \<open>
  A link candidate that carries a thumbnail, and worlds for examples: one with an
  image, a link and a failing fetcher, one with more candidates than a limit of 1 keeps.
\<close>

definition linked_candidate :: candidate where
  "linked_candidate = (hn_candidate ''9'')\<lparr>c_u := Some ''https://example.com/9.png''\<rparr>"

definition mixed_world :: world where
  "mixed_world f n =
     (if f = NASAEPIC then Fulfilled [epic_candidate]
      else if f = HackerNews then Fulfilled [linked_candidate]
      else if f = Unsplash then Rejected
      else Fulfilled [])"

definition crowded_world :: world where
  "crowded_world f n =
     (if f = NASAEPIC then Fulfilled [epic_candidate, epic_candidate, epic_candidate]
      else if f = HackerNews then Fulfilled [linked_candidate, linked_candidate]
      else Fulfilled [])"

text \<open>
  Three image candidates told apart by their number, and a world in which the EPIC
  fetcher finds them while the Hacker News fetcher fails.
\<close>

definition epic_numbered :: "string \<Rightarrow> candidate" where
  "epic_numbered n = epic_candidate\<lparr>c_id := Some (''nasa:epic:'' @ n)\<rparr>"

definition trio_world :: world where
  "trio_world f n =
     (if f = NASAEPIC
      then Fulfilled [epic_numbered ''1'', epic_numbered ''2'', epic_numbered ''3'']
      else if f = HackerNews then Rejected
      else Fulfilled [])"

text \<open>A candidate whose license requires attribution carries an attribution.\<close>

definition attributed :: "candidate \<Rightarrow> bool" where
  "attributed c = (arr_includes ATTRIBUTION_REQUIRED (c_lic c) \<longrightarrow> \<not> falsy (c_att c))"

text \<open>
  A world outside in which only Wikimedia Commons answers, with one page under
  CC BY-SA whose artist is given in markup.
\<close>

definition sample_page :: wc_page where
  "sample_page =
     \<lparr>wc_pageid = Some ''42'', wc_title = Some ''File:Blue marble.v2.jpg'',
      wc_imageinfo = Some
        \<lparr>wc_thumburl = None, wc_url = Some ''https://upload.wikimedia.org/b.jpg'',
         wc_descriptionurl = Some ''https://commons.wikimedia.org/wiki/File:B.jpg'',
         wc_LicenseShortName = Some ''CC BY-SA 4.0'',
         wc_Artist = Some ''<a href=x>Jane</a> Doe'',
         wc_ImageDescription = Some ''The <b>Earth</b>''\<rparr>\<rparr>"

definition sample_upstream :: upstream where
  "sample_upstream =
     \<lparr>up_now = 1700000000000,
      SMITHSONIAN_API_KEY = None, EUROPEANA_API_KEY = None, UNSPLASH_ACCESS_KEY = None,
      apod_response = Failed, epic_response = Failed, met_response = Failed,
      artic_response = Failed, si_response = Failed, eu_response = Failed,
      us_response = Failed, hn_response = Failed, wc_response = Ok [sample_page]\<rparr>"

section \<open>Properties\<close>

lemmas License_defs =
  License_PD_def License_CC0_def License_CCBY_def License_CCBYSA_def
  License_NASA_PD_def License_UNKNOWN_def License_NOT_ALLOWED_def

subsection \<open>The shuffle permutes\<close>

lemma draw_in_range:
  assumes "0 \<le> r" "r < 1"
  shows "nat \<lfloor>r * real (Suc i + 1)\<rfloor> < Suc i + 1"
proof -
  have "r * real (Suc i + 1) < real (Suc i + 1)"
    using assms by simp
  then have "\<lfloor>r * real (Suc i + 1)\<rfloor> < int (Suc i + 1)"
    by (simp add: floor_less_iff)
  then show ?thesis by linarith
qed

lemma length_swap: "length (swap i j xs) = length xs"
  by (simp add: swap_def)

lemma mset_swap_in_range:
  "i < length xs \<Longrightarrow> j < length xs \<Longrightarrow> mset (swap i j xs) = mset xs"
  unfolding swap_def by (rule mset_swap)

lemma length_shuffle_loop: "length (fst (shuffle_loop rnd n i xs)) = length xs"
  by (induction i arbitrary: n xs) (simp_all add: Let_def length_swap)

lemma mset_shuffle_loop:
  "unit_draws rnd \<Longrightarrow> i < length xs \<Longrightarrow> mset (fst (shuffle_loop rnd n i xs)) = mset xs"
proof (induction i arbitrary: n xs)
  case 0
  then show ?case by simp
next
  case (Suc i)
  let ?j = "nat \<lfloor>rnd n * real (Suc i + 1)\<rfloor>"
  have "?j < Suc i + 1"
    using Suc.prems(1) by (intro draw_in_range) (simp_all add: unit_draws_def)
  with Suc.prems(2) have j: "?j < length xs" by simp
  have "mset (fst (shuffle_loop rnd (Suc n) i (swap (Suc i) ?j xs))) = mset (swap (Suc i) ?j xs)"
    using Suc.prems by (intro Suc.IH) (simp_all add: length_swap)
  also have "\<dots> = mset xs"
    using Suc.prems(2) j by (rule mset_swap_in_range)
  finally show ?case by (simp add: Let_def)
qed

lemma length_shuffle: "length (fst (shuffle rnd n xs)) = length xs"
  by (simp add: shuffle_def length_shuffle_loop)

lemma mset_shuffle: "unit_draws rnd \<Longrightarrow> mset (fst (shuffle rnd n xs)) = mset xs"
proof (cases xs)
  case Nil
  then show ?thesis by (simp add: shuffle_def)
next
  case (Cons x ys)
  assume "unit_draws rnd"
  then show ?thesis
    unfolding shuffle_def by (intro mset_shuffle_loop) (simp_all add: Cons)
qed

lemma set_shuffle: "unit_draws rnd \<Longrightarrow> set (fst (shuffle rnd n xs)) = set xs"
  by (metis mset_shuffle set_mset_mset)

lemma unit_draws_half: "unit_draws half_draws"
  by (simp add: unit_draws_def half_draws_def)

text \<open>
  C9. Whatever the input array and whatever numbers \<^verbatim>\<open>Math.random\<close> draws from
  \<open>[0, 1)\<close>, \<^verbatim>\<open>shuffle\<close> returns a permutation of its input: the same length and the
  same multiset of elements.
\<close>

theorem shuffle_permutes:
  "unit_draws rnd \<Longrightarrow>
     length (fst (shuffle rnd n array)) = length array
     \<and> mset (fst (shuffle rnd n array)) = mset array"
  by (simp add: length_shuffle mset_shuffle)

theorem shuffle_permutes_witness:
  "unit_draws half_draws
   \<and> fst (shuffle half_draws 0 [1, 2, 3, 4 :: nat]) = [1, 4, 2, 3]
   \<and> length (fst (shuffle half_draws 0 [1, 2, 3, 4 :: nat])) = length [1, 2, 3, 4 :: nat]
   \<and> mset (fst (shuffle half_draws 0 [1, 2, 3, 4 :: nat])) = mset [1, 2, 3, 4 :: nat]"
proof -
  have run: "fst (shuffle half_draws 0 [1, 2, 3, 4 :: nat]) = [1, 4, 2, 3]"
    by (simp add: shuffle_def swap_def half_draws_def numeral_eq_Suc)
  show ?thesis
    using unit_draws_half shuffle_permutes [OF unit_draws_half, of 0 "[1, 2, 3, 4 :: nat]"] run
    by simp
qed

subsection \<open>What the orchestrator collects\<close>

lemma fold_visit_candidate:
  "fold visit_candidate cs (is, ls) =
     (is @ filter (\<lambda>c. accepted c \<and> \<not> link_only c) cs,
      ls @ filter (\<lambda>c. accepted c \<and> link_only c) cs)"
  by (induction cs arbitrary: "is" ls)
     (simp_all add: visit_candidate_def accepted_def link_only_def)

lemma fold_visit_result:
  "fold visit_result rs (is, ls) =
     (is @ filter (\<lambda>c. accepted c \<and> \<not> link_only c) (values_of rs),
      ls @ filter (\<lambda>c. accepted c \<and> link_only c) (values_of rs))"
  by (induction rs arbitrary: "is" ls rule: values_of.induct)
     (simp_all add: fold_visit_candidate)

lemma collect_eq:
  "collect rs =
     (filter (\<lambda>c. accepted c \<and> \<not> link_only c) (values_of rs),
      filter (\<lambda>c. accepted c \<and> link_only c) (values_of rs))"
  by (simp add: collect_def fold_visit_result)

lemma set_slice: "set (slice xs a b) \<subseteq> set xs"
  unfolding slice_def Let_def by (meson set_take_subset set_drop_subset subset_trans)

lemma length_slice_0: "0 \<le> b \<Longrightarrow> int (length (slice xs 0 b)) \<le> b"
  by (simp add: slice_def Let_def)

lemma slice_all: "int (length xs) \<le> b \<Longrightarrow> slice xs 0 b = xs"
  by (simp add: slice_def Let_def)

lemma ceiling_half: "\<lceil>1 / 2 :: real\<rceil> = 1"
  by (rule ceiling_unique) simp_all

lemma img_harvest_of:
  "img (harvest_of rnd limit (is, ls)) = slice (fst (shuffle rnd 0 is)) 0 (limit * 2)"
  by (simp add: harvest_of_def split: prod.splits)

lemma lnk_harvest_of:
  "lnk (harvest_of rnd limit (is, ls)) =
     slice (fst (shuffle rnd (snd (shuffle rnd 0 is)) ls)) 0 limit"
  by (simp add: harvest_of_def split: prod.splits)

lemma set_img_harvest_of:
  "unit_draws rnd \<Longrightarrow> set (img (harvest_of rnd limit (is, ls))) \<subseteq> set is"
  using set_slice set_shuffle by (fastforce simp: img_harvest_of)

lemma set_lnk_harvest_of:
  "unit_draws rnd \<Longrightarrow> set (lnk (harvest_of rnd limit (is, ls))) \<subseteq> set ls"
  using set_slice set_shuffle by (fastforce simp: lnk_harvest_of)

lemma harvestCandidates_eq:
  "harvestCandidates world rnd surfaces limit =
     Inr (harvest_of rnd limit (collect (allSettled world (fetchers surfaces limit))))"
  by (simp add: harvestCandidates_def)

lemma img_accepted:
  assumes "harvestCandidates world rnd surfaces limit = Inr h" "unit_draws rnd" "c \<in> set (img h)"
  shows "accepted c \<and> \<not> link_only c"
proof -
  let ?rs = "allSettled world (fetchers surfaces limit)"
  have "h = harvest_of rnd limit (collect ?rs)"
    using assms(1) by (simp add: harvestCandidates_eq)
  then have "c \<in> set (filter (\<lambda>c. accepted c \<and> \<not> link_only c) (values_of ?rs))"
    using assms(2,3) set_img_harvest_of unfolding collect_eq by blast
  then show ?thesis by simp
qed

lemma lnk_accepted:
  assumes "harvestCandidates world rnd surfaces limit = Inr h" "unit_draws rnd" "c \<in> set (lnk h)"
  shows "accepted c \<and> link_only c"
proof -
  let ?rs = "allSettled world (fetchers surfaces limit)"
  have "h = harvest_of rnd limit (collect ?rs)"
    using assms(1) by (simp add: harvestCandidates_eq)
  then have "c \<in> set (filter (\<lambda>c. accepted c \<and> link_only c) (values_of ?rs))"
    using assms(2,3) set_lnk_harvest_of unfolding collect_eq by blast
  then show ?thesis by simp
qed

lemma arr_includes_render:
  "arr_includes RENDER_ALLOWED_LICENSES v \<longleftrightarrow>
     v \<in> {Some ''PD'', Some ''CC0'', Some ''CCBY'', Some ''CCBYSA'', Some ''NASA_PD''}"
  by (auto simp: arr_includes_def RENDER_ALLOWED_LICENSES_def License_defs split: option.splits)

lemmas run_defs =
  harvestCandidates_eq collect_eq allSettled_def fetchers_def on_surface_def
  accepted_def malformed_def falsy_def link_only_def arr_includes_render
  harvest_of_def shuffle_def swap_def slice_def License_defs
  hn_candidate_def linked_candidate_def epic_candidate_def

lemma run_hn_world:
  "harvestCandidates hn_world zero_draws [''tech''] 5 = Inr \<lparr>img = [], lnk = []\<rparr>"
  by (simp add: run_defs hn_world_def)

lemma run_mixed_world:
  "harvestCandidates mixed_world half_draws [''all''] 5 =
     Inr \<lparr>img = [epic_candidate], lnk = [linked_candidate]\<rparr>"
  by (simp add: run_defs mixed_world_def)

lemma run_crowded_world:
  "harvestCandidates crowded_world half_draws [''all''] 1 =
     Inr \<lparr>img = [epic_candidate, epic_candidate], lnk = [linked_candidate]\<rparr>"
  by (simp add: run_defs crowded_world_def half_draws_def)

lemma values_of_append: "values_of (rs @ rs') = values_of rs @ values_of rs'"
  by (induction rs rule: values_of.induct) simp_all

lemma values_of_without:
  "values_of (allSettled (world(f := \<lambda>n. Rejected)) calls) =
     values_of (allSettled world (calls_without f calls))"
proof (induction calls)
  case Nil
  then show ?case by (simp add: allSettled_def calls_without_def)
next
  case (Cons call calls)
  obtain g n where call: "call = (g, n)" by (cases call)
  show ?case
  proof (cases "g = f")
    case True
    with Cons call show ?thesis by (simp add: allSettled_def calls_without_def)
  next
    case False
    with Cons call show ?thesis
      by (cases "world g n") (simp_all add: allSettled_def calls_without_def)
  qed
qed

lemma values_of_member:
  "(g, n) \<in> set calls \<Longrightarrow> world g n = Fulfilled cs \<Longrightarrow> c \<in> set cs
     \<Longrightarrow> c \<in> set (values_of (allSettled world calls))"
proof (induction calls)
  case Nil
  then show ?case by simp
next
  case (Cons call calls)
  obtain g' n' where call: "call = (g', n')" by (cases call)
  show ?case
  proof (cases "(g, n) = call")
    case True
    with Cons.prems call show ?thesis by (simp add: allSettled_def)
  next
    case False
    with Cons call have "c \<in> set (values_of (allSettled world calls))" by auto
    then show ?thesis
      using call by (cases "world g' n'") (simp_all add: allSettled_def)
  qed
qed

subsection \<open>The buckets\<close>

text \<open>
  C1. For every call of \<^verbatim>\<open>harvestCandidates\<close>, every candidate of the bucket \<^verbatim>\<open>img\<close>
  has a kind other than \<^verbatim>\<open>link\<close> and a license among PD, CC0, CCBY, CCBYSA and
  NASA_PD, and every candidate of the bucket \<^verbatim>\<open>lnk\<close> has the kind \<^verbatim>\<open>link\<close> or a
  license outside that set.
\<close>

theorem buckets_partition:
  assumes "harvestCandidates world rnd surfaces limit = Inr h" and "unit_draws rnd"
  shows "(\<forall>c \<in> set (img h).
            c_k c \<noteq> Some ''link''
            \<and> c_lic c \<in> {Some ''PD'', Some ''CC0'', Some ''CCBY'', Some ''CCBYSA'', Some ''NASA_PD''})
         \<and> (\<forall>c \<in> set (lnk h).
            c_k c = Some ''link''
            \<or> c_lic c \<notin> {Some ''PD'', Some ''CC0'', Some ''CCBY'', Some ''CCBYSA'', Some ''NASA_PD''})"
proof (intro conjI ballI)
  fix c assume "c \<in> set (img h)"
  then have "\<not> link_only c" using img_accepted [OF assms] by blast
  then show "c_k c \<noteq> Some ''link''"
    and "c_lic c \<in> {Some ''PD'', Some ''CC0'', Some ''CCBY'', Some ''CCBYSA'', Some ''NASA_PD''}"
    by (simp_all add: link_only_def arr_includes_render)
next
  fix c assume "c \<in> set (lnk h)"
  then have "link_only c" using lnk_accepted [OF assms] by blast
  then show "c_k c = Some ''link''
    \<or> c_lic c \<notin> {Some ''PD'', Some ''CC0'', Some ''CCBY'', Some ''CCBYSA'', Some ''NASA_PD''}"
    by (simp add: link_only_def arr_includes_render)
qed

theorem buckets_partition_witness:
  "harvestCandidates mixed_world half_draws [''all''] 5 =
     Inr \<lparr>img = [epic_candidate], lnk = [linked_candidate]\<rparr>
   \<and> unit_draws half_draws
   \<and> c_k epic_candidate \<noteq> Some ''link''
   \<and> c_lic epic_candidate = Some ''NASA_PD''
   \<and> c_k linked_candidate = Some ''link''"
  using buckets_partition [OF run_mixed_world unit_draws_half] run_mixed_world unit_draws_half
  by (simp add: epic_candidate_def linked_candidate_def hn_candidate_def License_defs)

text \<open>
  C2. For every call with a positive limit \<open>L\<close>, whatever the fetchers return, the
  bucket \<^verbatim>\<open>img\<close> has at most \<open>2 \<times> L\<close> candidates and the bucket \<^verbatim>\<open>lnk\<close> at most \<open>L\<close>.
\<close>

theorem buckets_bounded:
  assumes "0 < limit" and "harvestCandidates world rnd surfaces limit = Inr h"
  shows "int (length (img h)) \<le> 2 * limit \<and> int (length (lnk h)) \<le> limit"
proof -
  obtain "is" ls where acc: "collect (allSettled world (fetchers surfaces limit)) = (is, ls)"
    by (cases "collect (allSettled world (fetchers surfaces limit))")
  have h: "h = harvest_of rnd limit (is, ls)"
    using assms(2) acc by (simp add: harvestCandidates_eq)
  have "int (length (img h)) \<le> limit * 2"
    unfolding h img_harvest_of using assms(1) by (intro length_slice_0) simp
  moreover have "int (length (lnk h)) \<le> limit"
    unfolding h lnk_harvest_of using assms(1) by (intro length_slice_0) simp
  ultimately show ?thesis by simp
qed

theorem buckets_bounded_witness:
  "(0 :: int) < 1
   \<and> harvestCandidates crowded_world half_draws [''all''] 1 =
       Inr \<lparr>img = [epic_candidate, epic_candidate], lnk = [linked_candidate]\<rparr>
   \<and> int (length [epic_candidate, epic_candidate]) \<le> 2 * 1
   \<and> int (length [linked_candidate]) \<le> 1"
proof -
  have pos: "(0 :: int) < 1" by simp
  show ?thesis
    using buckets_bounded [OF pos run_crowded_world] run_crowded_world by simp
qed

text \<open>
  C5. Every candidate of either bucket has \<^verbatim>\<open>safe\<close> true and non-empty \<^verbatim>\<open>id\<close>, \<^verbatim>\<open>u\<close>,
  \<^verbatim>\<open>k\<close>, \<^verbatim>\<open>ttl\<close>, \<^verbatim>\<open>src\<close> and \<^verbatim>\<open>lic\<close>; a candidate that fails one of these checks is
  in neither bucket.
\<close>

theorem buckets_validated:
  assumes "harvestCandidates world rnd surfaces limit = Inr h" and "unit_draws rnd"
  shows "\<forall>c \<in> set (img h) \<union> set (lnk h).
           c_safe c \<and> \<not> falsy (c_id c) \<and> \<not> falsy (c_u c) \<and> \<not> falsy (c_k c)
           \<and> \<not> falsy (c_ttl c) \<and> \<not> falsy (c_src c) \<and> \<not> falsy (c_lic c)"
proof
  fix c assume "c \<in> set (img h) \<union> set (lnk h)"
  then have "accepted c"
    using img_accepted [OF assms] lnk_accepted [OF assms] by blast
  then show "c_safe c \<and> \<not> falsy (c_id c) \<and> \<not> falsy (c_u c) \<and> \<not> falsy (c_k c)
           \<and> \<not> falsy (c_ttl c) \<and> \<not> falsy (c_src c) \<and> \<not> falsy (c_lic c)"
    by (simp add: accepted_def malformed_def)
qed

theorem buckets_validated_witness:
  "harvestCandidates mixed_world half_draws [''all''] 5 =
     Inr \<lparr>img = [epic_candidate], lnk = [linked_candidate]\<rparr>
   \<and> unit_draws half_draws
   \<and> c_safe epic_candidate \<and> \<not> falsy (c_u epic_candidate)
   \<and> c_safe linked_candidate \<and> \<not> falsy (c_u linked_candidate)"
  using buckets_validated [OF run_mixed_world unit_draws_half] run_mixed_world unit_draws_half
  by simp

text \<open>
  C3. \<^verbatim>\<open>harvestCandidates(['tech'], 5)\<close>, with the Hacker News fetcher returning five
  link candidates (kind \<^verbatim>\<open>link\<close>, empty \<^verbatim>\<open>u\<close>, license UNKNOWN, safe, with identifier,
  title and source), is claimed to give five links and no image. The required-field
  test rejects the empty \<^verbatim>\<open>u\<close> that \<^verbatim>\<open>fetchHackerNews\<close> gives every candidate, so the
  code returns no link at all.
\<close>

theorem hacker_news_links_dropped:
  "harvestCandidates hn_world zero_draws [''tech''] 5 = Inr \<lparr>img = [], lnk = []\<rparr>
   \<and> length (lnk (projr (harvestCandidates hn_world zero_draws [''tech''] 5))) \<noteq> 5"
  by (simp add: run_hn_world)

subsection \<open>Failures\<close>

text \<open>
  C4 as claimed: a call with a non-positive limit or with no surface fails with a hard
  error. The code checks neither argument: with no surface and the limit 0 it returns
  two empty buckets, and with the limit -1 it returns what \<^verbatim>\<open>slice(0, -2)\<close> and
  \<^verbatim>\<open>slice(0, -1)\<close> leave of the candidates found.
\<close>

theorem invalid_call_returns_counterexample:
  "harvestCandidates quiet_world zero_draws [] 0 = Inr \<lparr>img = [], lnk = []\<rparr>
   \<and> harvestCandidates crowded_world zero_draws [''all''] (- 1) =
       Inr \<lparr>img = [epic_candidate], lnk = [linked_candidate]\<rparr>"
  by (simp add: run_defs quiet_world_def crowded_world_def zero_draws_def)

text \<open>
  C4 as amended: \<^verbatim>\<open>harvestCandidates\<close> validates neither argument. Called with a
  non-positive limit or with no surface it does not fail but returns a result; with no
  surface, and with the limit 0, both buckets of that result are empty.
\<close>

theorem invalid_call_returns:
  assumes "limit \<le> 0 \<or> surfaces = []"
  shows "\<exists>h. harvestCandidates world rnd surfaces limit = Inr h
           \<and> (surfaces = [] \<or> limit = 0 \<longrightarrow> img h = [] \<and> lnk h = [])"
proof -
  let ?acc = "collect (allSettled world (fetchers surfaces limit))"
  let ?h = "harvest_of rnd limit ?acc"
  have "img ?h = [] \<and> lnk ?h = []" if "surfaces = []"
    using that
    by (simp add: collect_eq allSettled_def fetchers_def on_surface_def harvest_of_def
        shuffle_def slice_def)
  moreover have "img ?h = [] \<and> lnk ?h = []" if "limit = 0"
  proof -
    obtain "is" ls where acc: "?acc = (is, ls)" by (cases ?acc)
    show ?thesis
      unfolding acc img_harvest_of lnk_harvest_of using that by (simp add: slice_def)
  qed
  ultimately show ?thesis
    by (auto simp: harvestCandidates_eq)
qed

theorem invalid_call_returns_witness:
  "((0 :: int) \<le> 0 \<or> [''tech''] = [])
   \<and> harvestCandidates hn_world zero_draws [''tech''] 0 = Inr \<lparr>img = [], lnk = []\<rparr>"
proof -
  have invalid: "(0 :: int) \<le> 0 \<or> [''tech''] = ([] :: string list)" by simp
  obtain h where "harvestCandidates hn_world zero_draws [''tech''] 0 = Inr h"
    and "img h = [] \<and> lnk h = []"
    using invalid_call_returns [OF invalid, of hn_world zero_draws] by auto
  then show ?thesis by simp
qed

text \<open>
  C7 as claimed: if one selected fetcher fails, \<^verbatim>\<open>harvestCandidates\<close> still returns and
  its output contains the candidates contributed by every other fetcher. The call does
  return, but the output is cut to the limit: with the surface \<^verbatim>\<open>all\<close>, the limit 1,
  the Hacker News fetcher rejected and the EPIC fetcher fulfilled with three candidates
  that pass every check, the bucket \<^verbatim>\<open>img\<close> holds two of them and the third is in
  neither bucket.
\<close>

theorem failing_fetcher_output_counterexample:
  "harvestCandidates trio_world half_draws [''all''] 1 =
     Inr \<lparr>img = [epic_numbered ''1'', epic_numbered ''3''], lnk = []\<rparr>
   \<and> trio_world HackerNews 1 = Rejected
   \<and> (NASAEPIC, 1) \<in> set (fetchers [''all''] 1)
   \<and> trio_world NASAEPIC 1 =
       Fulfilled [epic_numbered ''1'', epic_numbered ''2'', epic_numbered ''3'']
   \<and> accepted (epic_numbered ''2'')
   \<and> epic_numbered ''2'' \<notin> set [epic_numbered ''1'', epic_numbered ''3''] \<union> set []"
  by (simp add: run_defs trio_world_def epic_numbered_def half_draws_def numeral_eq_Suc
      ceiling_half)

text \<open>
  C7 as amended: if one selected fetcher fails (its promise is rejected),
  \<^verbatim>\<open>harvestCandidates\<close> still returns, and its output is the output of the same call
  with the failing fetcher left out. When \<^verbatim>\<open>Math.random\<close> draws from \<open>[0, 1)\<close>, every
  candidate of another selected fetcher that passes the safety and required-field checks
  is in the bucket \<^verbatim>\<open>img\<close> if it is an image candidate and the other fetchers give at
  most \<open>2 \<times> limit\<close> such candidates, and in the bucket \<^verbatim>\<open>lnk\<close> if it is a link candidate
  and the other fetchers give at most \<open>limit\<close> such candidates.
\<close>

theorem failing_fetcher_isolated:
  "\<exists>h. harvestCandidates (world(f := \<lambda>n. Rejected)) rnd surfaces limit = Inr h
     \<and> h = harvest_of rnd limit
              (collect (allSettled world (calls_without f (fetchers surfaces limit))))
     \<and> (unit_draws rnd \<longrightarrow>
          (\<forall>g n cs c.
             (g, n) \<in> set (fetchers surfaces limit) \<and> g \<noteq> f \<and> world g n = Fulfilled cs
             \<and> c \<in> set cs \<and> accepted c
             \<longrightarrow> (\<not> link_only c
                   \<and> int (length (fst (collect (allSettled world
                             (calls_without f (fetchers surfaces limit)))))) \<le> 2 * limit
                   \<longrightarrow> c \<in> set (img h))
                \<and> (link_only c
                   \<and> int (length (snd (collect (allSettled world
                             (calls_without f (fetchers surfaces limit)))))) \<le> limit
                   \<longrightarrow> c \<in> set (lnk h))))"
proof -
  let ?others = "allSettled world (calls_without f (fetchers surfaces limit))"
  let ?h = "harvest_of rnd limit (collect ?others)"
  obtain "is" ls where acc: "collect ?others = (is, ls)"
    by (cases "collect ?others")
  have "is": "is = filter (\<lambda>c. accepted c \<and> \<not> link_only c) (values_of ?others)"
    and ls: "ls = filter (\<lambda>c. accepted c \<and> link_only c) (values_of ?others)"
    using acc by (simp_all add: collect_eq)
  have run: "harvestCandidates (world(f := \<lambda>n. Rejected)) rnd surfaces limit = Inr ?h"
    by (simp add: harvestCandidates_eq collect_eq values_of_without)
  have kept: "(\<not> link_only c \<and> int (length (fst (collect ?others))) \<le> 2 * limit
                 \<longrightarrow> c \<in> set (img ?h))
              \<and> (link_only c \<and> int (length (snd (collect ?others))) \<le> limit
                 \<longrightarrow> c \<in> set (lnk ?h))"
    if draws: "unit_draws rnd"
      and a: "(g, n) \<in> set (fetchers surfaces limit) \<and> g \<noteq> f \<and> world g n = Fulfilled cs
              \<and> c \<in> set cs \<and> accepted c"
    for g n cs c
  proof (intro conjI impI)
    have "(g, n) \<in> set (calls_without f (fetchers surfaces limit))"
      using a by (simp add: calls_without_def)
    with a have member: "c \<in> set (values_of ?others)"
      by (intro values_of_member [where g = g and n = n and cs = cs]) simp_all
    {
      assume b: "\<not> link_only c \<and> int (length (fst (collect ?others))) \<le> 2 * limit"
      then have "int (length (fst (shuffle rnd 0 is))) \<le> limit * 2"
        by (simp add: acc length_shuffle)
      then have "img ?h = fst (shuffle rnd 0 is)"
        unfolding acc img_harvest_of by (rule slice_all)
      moreover have "c \<in> set is"
        using a b member by (simp add: "is")
      ultimately show "c \<in> set (img ?h)"
        using draws by (simp add: set_shuffle)
    }
    {
      assume b: "link_only c \<and> int (length (snd (collect ?others))) \<le> limit"
      then have "int (length (fst (shuffle rnd (snd (shuffle rnd 0 is)) ls))) \<le> limit"
        by (simp add: acc length_shuffle)
      then have "lnk ?h = fst (shuffle rnd (snd (shuffle rnd 0 is)) ls)"
        unfolding acc lnk_harvest_of by (rule slice_all)
      moreover have "c \<in> set ls"
        using a b member by (simp add: ls)
      ultimately show "c \<in> set (lnk ?h)"
        using draws by (simp add: set_shuffle)
    }
  qed
  show ?thesis
    using run kept by blast
qed

theorem failing_fetcher_isolated_witness:
  "harvestCandidates (mixed_world(Unsplash := \<lambda>n. Rejected)) half_draws [''all''] 5 =
     Inr \<lparr>img = [epic_candidate], lnk = [linked_candidate]\<rparr>
   \<and> unit_draws half_draws
   \<and> (NASAEPIC, 3) \<in> set (fetchers [''all''] 5) \<and> NASAEPIC \<noteq> Unsplash
   \<and> mixed_world NASAEPIC 3 = Fulfilled [epic_candidate]
   \<and> accepted epic_candidate \<and> \<not> link_only epic_candidate
   \<and> int (length (fst (collect (allSettled mixed_world
              (calls_without Unsplash (fetchers [''all''] 5)))))) \<le> 2 * 5
   \<and> epic_candidate \<in> set [epic_candidate]"
proof -
  let ?others = "allSettled mixed_world (calls_without Unsplash (fetchers [''all''] 5))"
  have others: "collect ?others = ([epic_candidate], [linked_candidate])"
    by (simp add: run_defs calls_without_def mixed_world_def)
  have sel: "(NASAEPIC, 3) \<in> set (fetchers [''all''] 5) \<and> NASAEPIC \<noteq> Unsplash
      \<and> mixed_world NASAEPIC 3 = Fulfilled [epic_candidate]
      \<and> epic_candidate \<in> set [epic_candidate] \<and> accepted epic_candidate"
    by (simp add: fetchers_def on_surface_def mixed_world_def accepted_def malformed_def
        falsy_def epic_candidate_def License_defs)
  have image: "\<not> link_only epic_candidate"
    by (simp add: link_only_def arr_includes_render epic_candidate_def License_defs)
  obtain h where
    run: "harvestCandidates (mixed_world(Unsplash := \<lambda>n. Rejected)) half_draws [''all''] 5 = Inr h"
    and h: "h = harvest_of half_draws 5 (collect ?others)"
    and kept: "\<not> link_only epic_candidate
               \<and> int (length (fst (collect ?others))) \<le> 2 * 5 \<longrightarrow> epic_candidate \<in> set (img h)"
    using failing_fetcher_isolated [of mixed_world Unsplash half_draws "[''all'']" 5]
      unit_draws_half sel
    by blast
  have "h = \<lparr>img = [epic_candidate], lnk = [linked_candidate]\<rparr>"
    unfolding h others by (simp add: harvest_of_def shuffle_def slice_def)
  with run kept sel image others unit_draws_half show ?thesis
    by simp
qed

subsection \<open>The license classifier\<close>

lemmas classify_defs =
  parseWikimediaLicense_def falsy_def toLowerCase_def toLowerCase_char_def char_of_def
  Let_def bit_Suc_0_iff

text \<open>
  C8. The classifier maps the rights string \<^verbatim>\<open>Public Domain Mark\<close> to CC0 and the
  rights string \<^verbatim>\<open>CC BY-SA 4.0\<close> to CCBYSA, and CCBYSA requires attribution.
\<close>

theorem classifier_scenarios:
  "parseWikimediaLicense (Some ''Public Domain Mark'') = License_CC0
   \<and> parseWikimediaLicense (Some ''CC BY-SA 4.0'') = License_CCBYSA
   \<and> License_CCBYSA \<in> set ATTRIBUTION_REQUIRED"
  by (simp add: classify_defs ATTRIBUTION_REQUIRED_def)

text \<open>
  C10. For every input, \<^verbatim>\<open>parseWikimediaLicense\<close> returns CC0, CCBYSA, CCBY or UNKNOWN,
  never NOT_ALLOWED, PD or NASA_PD; the rights string \<^verbatim>\<open>All rights reserved\<close> is
  classified UNKNOWN, not NOT_ALLOWED.
\<close>

theorem wikimedia_license_range:
  "parseWikimediaLicense licenseString
     \<in> {License_CC0, License_CCBYSA, License_CCBY, License_UNKNOWN}
   \<and> parseWikimediaLicense licenseString
     \<notin> {License_NOT_ALLOWED, License_PD, License_NASA_PD}
   \<and> parseWikimediaLicense (Some ''All rights reserved'') = License_UNKNOWN
   \<and> License_UNKNOWN \<noteq> License_NOT_ALLOWED"
proof -
  have range: "parseWikimediaLicense licenseString
     \<in> {License_CC0, License_CCBYSA, License_CCBY, License_UNKNOWN}"
    by (simp add: parseWikimediaLicense_def Let_def)
  have apart: "{License_CC0, License_CCBYSA, License_CCBY, License_UNKNOWN}
     \<inter> {License_NOT_ALLOWED, License_PD, License_NASA_PD} = {}"
    by (simp add: License_defs)
  have reserved: "parseWikimediaLicense (Some ''All rights reserved'') = License_UNKNOWN"
    by (simp add: classify_defs)
  have "License_UNKNOWN \<noteq> License_NOT_ALLOWED"
    by (simp add: License_defs)
  with range apart reserved show ?thesis by blast
qed

subsection \<open>What the fetchers emit\<close>

lemma set_for_each:
  "set (for_each body items candidates)
     \<subseteq> set candidates \<union> {c. \<exists>item \<in> set items. body item = Push c}"
proof (induction items arbitrary: candidates)
  case Nil
  then show ?case by simp
next
  case (Cons item items)
  show ?case
  proof (cases "body item")
    case Skip
    with Cons [of candidates] show ?thesis by auto
  next
    case (Push c)
    with Cons [of "candidates @ [c]"] show ?thesis by auto
  next
    case Throw
    then show ?thesis by simp
  qed
qed

lemma set_for_each_upto:
  "set (for_each_upto limit body items candidates)
     \<subseteq> set candidates \<union> {c. \<exists>item \<in> set items. body item = Push c}"
proof (induction items arbitrary: candidates)
  case Nil
  then show ?case by simp
next
  case (Cons item items)
  show ?case
  proof (cases "body item")
    case Skip
    with Cons [of candidates] show ?thesis by auto
  next
    case (Push c)
    with Cons [of "candidates @ [c]"] show ?thesis by auto
  next
    case Throw
    then show ?thesis by simp
  qed
qed

lemma for_each_pushed:
  "c \<in> set (for_each body items []) \<Longrightarrow> \<exists>item. body item = Push c"
  using set_for_each [of body items "[]"] by auto

lemma for_each_upto_pushed:
  "c \<in> set (for_each_upto limit body items []) \<Longrightarrow> \<exists>item. body item = Push c"
  using set_for_each_upto [of limit body items "[]"] by auto

lemma not_attribution_required:
  "\<not> arr_includes ATTRIBUTION_REQUIRED (Some License_CC0)"
  "\<not> arr_includes ATTRIBUTION_REQUIRED (Some License_UNKNOWN)"
  by (simp_all add: arr_includes_def ATTRIBUTION_REQUIRED_def License_defs)

lemma apod_attributed: "apod_candidate item = Push c \<Longrightarrow> attributed c"
  by (auto simp: apod_candidate_def attributed_def falsy_def copyright_sign_def
      split: if_splits option.splits)

lemma epic_attributed: "epic_candidate_of item = Push c \<Longrightarrow> attributed c"
  by (auto simp: epic_candidate_of_def attributed_def falsy_def Let_def
      split: if_splits option.splits)

lemma met_attributed: "met_candidate r = Push c \<Longrightarrow> attributed c"
  by (auto simp: met_candidate_def attributed_def not_attribution_required
      split: if_splits response.splits)

lemma artic_attributed: "artic_candidate b a = Push c \<Longrightarrow> attributed c"
  by (auto simp: artic_candidate_def attributed_def Let_def not_attribution_required
      split: if_splits)

lemma si_attributed: "si_candidate r = Push c \<Longrightarrow> attributed c"
  by (auto simp: si_candidate_def attributed_def not_attribution_required
      split: if_splits option.splits)

lemma us_attributed: "us_candidate r = Push c \<Longrightarrow> attributed c"
  by (auto simp: us_candidate_def attributed_def Let_def not_attribution_required
      split: if_splits)

lemma hn_attributed: "hn_candidate_of r = Push c \<Longrightarrow> attributed c"
  by (auto simp: hn_candidate_of_def attributed_def not_attribution_required
      split: if_splits response.splits option.splits)

lemma parseEuropeanaRights_range:
  "parseEuropeanaRights r
     \<in> {License_CC0, License_CCBYSA, License_CCBY, License_NOT_ALLOWED, License_UNKNOWN}"
  by (simp add: parseEuropeanaRights_def Let_def)

lemma eu_attributed: "eu_candidate item = Push c \<Longrightarrow> attributed c"
  using parseEuropeanaRights_range [of "eu_rights item"]
  by (auto simp: eu_candidate_def attributed_def Let_def falsy_def arr_includes_def
       ATTRIBUTION_REQUIRED_def License_defs split: if_splits)

lemma wc_attributed: "wc_candidate page = Push c \<Longrightarrow> attributed c"
  by (auto simp: wc_candidate_def attributed_def Let_def falsy_def
      split: if_splits option.splits)

lemma run_fetcher_attributed:
  assumes "c \<in> set (run_fetcher up f limit)"
  shows "attributed c"
proof (cases f)
  case NASAAPOD
  with assms show ?thesis
    by (auto simp: run_fetcher_def fetchNASAAPOD_def Let_def
        split: if_splits response.splits dest!: for_each_pushed intro: apod_attributed)
next
  case NASAEPIC
  with assms show ?thesis
    by (auto simp: run_fetcher_def fetchNASAEPIC_def
        split: response.splits dest!: for_each_pushed intro: epic_attributed)
next
  case MetMuseum
  with assms show ?thesis
    by (auto simp: run_fetcher_def fetchMetMuseum_def Let_def
        split: response.splits dest!: for_each_upto_pushed intro: met_attributed)
next
  case ArtInstituteChicago
  with assms show ?thesis
    by (auto simp: run_fetcher_def fetchArtInstituteChicago_def Let_def
        split: response.splits dest!: for_each_pushed intro: artic_attributed)
next
  case Smithsonian
  with assms show ?thesis
    by (auto simp: run_fetcher_def fetchSmithsonian_def
        split: if_splits response.splits dest!: for_each_pushed intro: si_attributed)
next
  case Europeana
  with assms show ?thesis
    by (auto simp: run_fetcher_def fetchEuropeana_def
        split: if_splits response.splits dest!: for_each_upto_pushed intro: eu_attributed)
next
  case WikimediaCommons
  with assms show ?thesis
    by (auto simp: run_fetcher_def fetchWikimediaCommons_def
        split: response.splits dest!: for_each_upto_pushed intro: wc_attributed)
next
  case Unsplash
  with assms show ?thesis
    by (auto simp: run_fetcher_def fetchUnsplash_def
        split: if_splits response.splits dest!: for_each_pushed intro: us_attributed)
next
  case HackerNews
  with assms show ?thesis
    by (auto simp: run_fetcher_def fetchHackerNews_def
        split: response.splits dest!: for_each_pushed intro: hn_attributed)
qed

lemma run_sample_upstream:
  "run_fetcher sample_upstream WikimediaCommons 5 =
     [\<lparr>c_id = Some ''wc:42'', c_u = Some ''https://upload.wikimedia.org/b.jpg'',
       c_k = Some ''photo'', c_ttl = Some ''Blue marble.v2'', c_desc = Some ''The Earth'',
       c_src = Some ''Wikimedia Commons'', c_lic = Some ''CCBYSA'',
       c_att = Some (''Jane Doe '' @ emdash @ '' CC BY-SA 4.0''),
       c_link = Some ''https://commons.wikimedia.org/wiki/File:B.jpg'', c_safe = True\<rparr>]"
  by code_simp

text \<open>
  C6. Every candidate that a fetcher emits with a license that requires attribution
  (CCBY, CCBYSA or NASA_PD) has a non-empty string as its \<^verbatim>\<open>att\<close>.
\<close>

theorem attribution_present:
  assumes "c \<in> set (run_fetcher up f limit)"
    and "c_lic c \<in> {Some ''CCBY'', Some ''CCBYSA'', Some ''NASA_PD''}"
  shows "\<exists>att. c_att c = Some att \<and> att \<noteq> []"
proof -
  have "arr_includes ATTRIBUTION_REQUIRED (c_lic c)"
    using assms(2) by (auto simp: arr_includes_def ATTRIBUTION_REQUIRED_def License_defs)
  with run_fetcher_attributed [OF assms(1)] have "\<not> falsy (c_att c)"
    by (simp add: attributed_def)
  then show ?thesis
    by (cases "c_att c") (simp_all add: falsy_def)
qed

theorem attribution_present_witness:
  "map c_lic (run_fetcher sample_upstream WikimediaCommons 5) = [Some ''CCBYSA'']
   \<and> map c_att (run_fetcher sample_upstream WikimediaCommons 5) =
       [Some (''Jane Doe '' @ emdash @ '' CC BY-SA 4.0'')]
   \<and> (\<exists>att. c_att (hd (run_fetcher sample_upstream WikimediaCommons 5)) = Some att
             \<and> att \<noteq> [])"
proof -
  let ?c = "hd (run_fetcher sample_upstream WikimediaCommons 5)"
  have emitted: "?c \<in> set (run_fetcher sample_upstream WikimediaCommons 5)"
    by (simp add: run_sample_upstream)
  have license: "c_lic ?c \<in> {Some ''CCBY'', Some ''CCBYSA'', Some ''NASA_PD''}"
    by (simp add: run_sample_upstream)
  show ?thesis
    using attribution_present [OF emitted license] by (simp add: run_sample_upstream)
qed

text \<open>
  Whatever Hacker News answers, every candidate \<^verbatim>\<open>fetchHackerNews\<close> emits fails the
  required-field test of the orchestrator, so a harvest of the surface \<^verbatim>\<open>tech\<close> alone
  is always empty.
\<close>

lemma hacker_news_malformed:
  "c \<in> set (fetchHackerNews limit topStoriesRes) \<Longrightarrow> malformed c"
  by (auto simp: fetchHackerNews_def hn_candidate_of_def malformed_def falsy_def
      split: response.splits option.splits if_splits dest!: for_each_pushed)

lemma tech_surface_empty:
  "harvestCandidates (live_world up) rnd [''tech''] limit = Inr \<lparr>img = [], lnk = []\<rparr>"
proof -
  have calls: "allSettled (live_world up) (fetchers [''tech''] limit) =
      [Fulfilled (fetchHackerNews limit (hn_response up))]"
    by (simp add: allSettled_def fetchers_def on_surface_def live_world_def run_fetcher_def)
  have "filter (\<lambda>c. accepted c \<and> P c) (fetchHackerNews limit (hn_response up)) = []" for P
    using hacker_news_malformed [of _ limit "hn_response up"]
    by (auto simp: filter_empty_conv accepted_def)
  then have "collect (allSettled (live_world up) (fetchers [''tech''] limit)) = ([], [])"
    by (simp add: calls collect_eq)
  then show ?thesis
    by (simp add: harvestCandidates_eq harvest_of_def shuffle_def slice_def)
qed

end
